theory Spec2Isabelle
  imports Complex_Main "HOL-Library.Monad_Syntax"
begin

section \<open>Floating-point values\<close>

text \<open>
  Python's float and SQLite's REAL are IEEE 754 binary64 numbers. \<open>Finite x\<close> is the
  double whose value is the real number \<open>x\<close>; the two infinities and NaN are values of
  their own. Signed zeros are not told apart (no comparison of the code does).
  \<open>round_double\<close> rounds a real result to the nearest double, ties to even: 53 bits of
  significand, exponents from -1022 (subnormal numbers below) to 1023, and a result beyond
  the largest double becomes an infinity.
\<close>

datatype double = Finite real | PInf | NInf | NaN

definition round_to_even :: "real \<Rightarrow> int" where
  "round_to_even r =
     (let f = \<lfloor>r\<rfloor> in
      if r - of_int f < 1 / 2 then f
      else if 1 / 2 < r - of_int f then f + 1
      else if even f then f else f + 1)"

definition exponent :: "real \<Rightarrow> int" where
  "exponent x = max \<lfloor>log 2 \<bar>x\<bar>\<rfloor> (- 1022)"

definition ulp :: "real \<Rightarrow> real" where
  "ulp x = power_int 2 (exponent x - 52)"

definition max_double :: real where
  "max_double = (2 ^ 53 - 1) * 2 ^ 971"

definition round_double :: "real \<Rightarrow> double" where
  "round_double x =
     (if x = 0 then Finite 0
      else let y = of_int (round_to_even (x / ulp x)) * ulp x in
           if max_double < y then PInf
           else if y < - max_double then NInf
           else Finite y)"

text \<open>The arithmetic and the comparisons of doubles, as Python and SQLite compute them.\<close>

fun double_neg :: "double \<Rightarrow> double" where
  "double_neg (Finite x) = Finite (- x)"
| "double_neg PInf = NInf"
| "double_neg NInf = PInf"
| "double_neg NaN = NaN"

fun double_add :: "double \<Rightarrow> double \<Rightarrow> double" where
  "double_add NaN b = NaN"
| "double_add a NaN = NaN"
| "double_add PInf NInf = NaN"
| "double_add NInf PInf = NaN"
| "double_add PInf b = PInf"
| "double_add a PInf = PInf"
| "double_add NInf b = NInf"
| "double_add a NInf = NInf"
| "double_add (Finite x) (Finite y) = round_double (x + y)"

definition double_sub :: "double \<Rightarrow> double \<Rightarrow> double" where
  "double_sub a b = double_add a (double_neg b)"

fun double_less :: "double \<Rightarrow> double \<Rightarrow> bool" where
  "double_less NaN b = False"
| "double_less a NaN = False"
| "double_less PInf b = False"
| "double_less a NInf = False"
| "double_less NInf b = True"
| "double_less a PInf = True"
| "double_less (Finite x) (Finite y) = (x < y)"

definition double_le :: "double \<Rightarrow> double \<Rightarrow> bool" where
  "double_le a b = (double_less a b \<or> (a = b \<and> a \<noteq> NaN))"

text \<open>
  A value of a REAL column is a double or NULL (\<open>None\<close>). SQLite binds a NaN parameter
  as NULL and stores a NaN result as NULL; an operation with a NULL operand is NULL.
\<close>

definition bind_real :: "double \<Rightarrow> double option" where
  "bind_real a = (if a = NaN then None else Some a)"

definition sql_add :: "double option \<Rightarrow> double option \<Rightarrow> double option" where
  "sql_add v w =
     (case v of None \<Rightarrow> None
      | Some a \<Rightarrow> (case w of None \<Rightarrow> None | Some b \<Rightarrow> bind_real (double_add a b)))"

definition sql_sub :: "double option \<Rightarrow> double option \<Rightarrow> double option" where
  "sql_sub v w =
     (case v of None \<Rightarrow> None
      | Some a \<Rightarrow> (case w of None \<Rightarrow> None | Some b \<Rightarrow> bind_real (double_sub a b)))"

section \<open>The database of utils.py\<close>

text \<open>
  The two tables of \<^verbatim>\<open>create_tables\<close>. A row of \<^verbatim>\<open>users\<close> is
  (username, password, balance); a row of \<^verbatim>\<open>transactions\<close> is
  (id, username, type, amount, timestamp, other_party). A table is the list of its rows in
  insertion order. \<^verbatim>\<open>sqlite_sequence\<close> is the counter SQLite keeps for the
  AUTOINCREMENT column.
\<close>

record user_row =
  username :: string
  password :: string
  balance :: "double option"

record txn_row =
  tx_id :: nat
  tx_username :: string
  tx_type :: string
  tx_amount :: "double option"
  tx_timestamp :: string
  tx_other_party :: string

record database =
  users :: "user_row list"
  transactions :: "txn_row list"
  sqlite_sequence :: nat

text \<open>The state after \<^verbatim>\<open>create_tables()\<close> on a fresh file.\<close>

definition create_tables :: database where
  "create_tables = \<lparr>users = [], transactions = [], sqlite_sequence = 0\<rparr>"

text \<open>
  An exception that leaves a function: an \<^verbatim>\<open>sqlite3.Error\<close> of a database call, or
  the \<^verbatim>\<open>TypeError\<close> Python raises when a NULL balance (\<^verbatim>\<open>None\<close>) is compared
  with the amount or passed to \<^verbatim>\<open>float\<close>.
\<close>

datatype error = Sqlite_Error | Type_Error

subsection \<open>The SQL statements\<close>

text \<open>
  \<^verbatim>\<open>SELECT ... FROM users WHERE username = ?\<close> followed by \<^verbatim>\<open>fetchone()\<close>:
  \<open>None\<close> when no row matches. \<open>select_balance\<close> gives \<open>Some None\<close> for a row
  whose balance is NULL.
\<close>

definition select_user :: "string \<Rightarrow> database \<Rightarrow> user_row option" where
  "select_user u db = find (\<lambda>r. username r = u) (users db)"

definition select_balance :: "string \<Rightarrow> database \<Rightarrow> double option option" where
  "select_balance u db = map_option balance (select_user u db)"

text \<open>\<^verbatim>\<open>UPDATE users SET balance = balance + ? WHERE username = ?\<close>\<close>

definition update_add :: "double \<Rightarrow> string \<Rightarrow> database \<Rightarrow> database" where
  "update_add a u db =
     db\<lparr>users := map (\<lambda>r. if username r = u
                            then r\<lparr>balance := sql_add (balance r) (bind_real a)\<rparr> else r)
                     (users db)\<rparr>"

text \<open>\<^verbatim>\<open>UPDATE users SET balance = balance - ? WHERE username = ?\<close>\<close>

definition update_sub :: "double \<Rightarrow> string \<Rightarrow> database \<Rightarrow> database" where
  "update_sub a u db =
     db\<lparr>users := map (\<lambda>r. if username r = u
                            then r\<lparr>balance := sql_sub (balance r) (bind_real a)\<rparr> else r)
                     (users db)\<rparr>"

text \<open>
  \<^verbatim>\<open>INSERT INTO transactions (username, type, amount, timestamp, other_party)\<close>:
  the id is the next value of the AUTOINCREMENT counter.
\<close>

definition insert_transaction ::
    "string \<Rightarrow> string \<Rightarrow> double \<Rightarrow> string \<Rightarrow> string \<Rightarrow> database \<Rightarrow> database" where
  "insert_transaction u ty a ts other db =
     db\<lparr>transactions := transactions db @
           [\<lparr>tx_id = Suc (sqlite_sequence db), tx_username = u, tx_type = ty,
             tx_amount = bind_real a, tx_timestamp = ts, tx_other_party = other\<rparr>],
        sqlite_sequence := Suc (sqlite_sequence db)\<rparr>"

text \<open>\<^verbatim>\<open>INSERT INTO users (username, password, balance) VALUES (?, ?, 0.0)\<close>\<close>

definition insert_user :: "string \<Rightarrow> string \<Rightarrow> database \<Rightarrow> database" where
  "insert_user u hashed db =
     db\<lparr>users := users db @ [\<lparr>username = u, password = hashed, balance = Some (Finite 0)\<rparr>]\<rparr>"

text \<open>\<^verbatim>\<open>BEGIN\<close> and \<^verbatim>\<open>conn.commit()\<close> change no row.\<close>

definition begin_stmt :: "database \<Rightarrow> database" where
  "begin_stmt db = db"

definition commit :: "database \<Rightarrow> database" where
  "commit db = db"

text \<open>
  Any database call may raise \<^verbatim>\<open>sqlite3.Error\<close>. The argument \<open>fault\<close> of an
  operation names the call that raises, counted from 0 in the order the function makes
  them (\<open>None\<close>: no call raises). \<open>execute fault k stmt\<close> is the \<open>k\<close>-th call.
\<close>

definition execute :: "nat option \<Rightarrow> nat \<Rightarrow> (database \<Rightarrow> database) \<Rightarrow> database \<Rightarrow> database option" where
  "execute fault k stmt db = (if fault = Some k then None else Some (stmt db))"

section \<open>The operations of utils.py\<close>

text \<open>
  Every operation takes the database and returns its result with the database it leaves.
  A result \<open>Inr b\<close> is the returned value, \<open>Inl e\<close> an exception that escapes the
  function; then the connection is closed without a commit. Inside the inner
  \<^verbatim>\<open>try\<close> an \<^verbatim>\<open>sqlite3.Error\<close> is caught, rolled back and reported as False.
  \<open>hashed\<close> is the value of \<^verbatim>\<open>bcrypt.hashpw\<close>, \<open>now\<close> the formatted
  \<^verbatim>\<open>datetime.now()\<close>.
\<close>

definition signup ::
    "nat option \<Rightarrow> string \<Rightarrow> string \<Rightarrow> string \<Rightarrow> database \<Rightarrow> (error + bool) \<times> database" where
  "signup fault hashed uname pwd db =
     (if uname = [] \<or> pwd = [] then (Inr False, db)
      else if fault = Some 0 then (Inl Sqlite_Error, db)
      else if uname \<in> set (map username (users db)) then (Inr False, db)
      else if fault = Some 1 then (Inl Sqlite_Error, db)
      else (Inr True, commit (insert_user uname hashed db)))"

definition get_balance :: "nat option \<Rightarrow> string \<Rightarrow> database \<Rightarrow> (error + double) \<times> database" where
  "get_balance fault uname db =
     (if fault = Some 0 then (Inl Sqlite_Error, db)
      else case select_balance uname db of
             None \<Rightarrow> (Inr (Finite 0), db)
           | Some None \<Rightarrow> (Inl Type_Error, db)
           | Some (Some b) \<Rightarrow> (Inr b, db))"

definition deposit ::
    "nat option \<Rightarrow> string \<Rightarrow> string \<Rightarrow> double \<Rightarrow> database \<Rightarrow> (error + bool) \<times> database" where
  "deposit fault now uname amount db =
     (if double_le amount (Finite 0) then (Inr False, db)
      else case execute fault 0 (update_add amount uname) db
                \<bind> execute fault 1 (insert_transaction uname ''Deposit'' amount now '''')
                \<bind> execute fault 2 commit of
             None \<Rightarrow> (Inr False, db)
           | Some db' \<Rightarrow> (Inr True, db'))"

text \<open>
  \<^verbatim>\<open>withdraw\<close> in its two steps: the guard and the SELECT with its test (lines
  137 to 145), which writes nothing, and the UPDATE, INSERT and commit (lines 146 to 157).
  No transaction spans the two. \<open>withdraw\<close> is one step after the other.
\<close>

definition withdraw_check :: "nat option \<Rightarrow> string \<Rightarrow> double \<Rightarrow> database \<Rightarrow> error + bool" where
  "withdraw_check fault uname amount db =
     (if double_le amount (Finite 0) then Inr False
      else if fault = Some 0 then Inl Sqlite_Error
      else case select_balance uname db of
             None \<Rightarrow> Inr False
           | Some None \<Rightarrow> Inl Type_Error
           | Some (Some b) \<Rightarrow> if double_less b amount then Inr False else Inr True)"

definition withdraw_write ::
    "nat option \<Rightarrow> string \<Rightarrow> string \<Rightarrow> double \<Rightarrow> database \<Rightarrow> (error + bool) \<times> database" where
  "withdraw_write fault now uname amount db =
     (case execute fault 1 (update_sub amount uname) db
           \<bind> execute fault 2 (insert_transaction uname ''Withdraw'' amount now '''')
           \<bind> execute fault 3 commit of
        None \<Rightarrow> (Inr False, db)
      | Some db' \<Rightarrow> (Inr True, db'))"

definition withdraw ::
    "nat option \<Rightarrow> string \<Rightarrow> string \<Rightarrow> double \<Rightarrow> database \<Rightarrow> (error + bool) \<times> database" where
  "withdraw fault now uname amount db =
     (let checked = withdraw_check fault uname amount db
      in if checked = Inr True then withdraw_write fault now uname amount db
         else (checked, db))"

definition transfer ::
    "nat option \<Rightarrow> string \<Rightarrow> string \<Rightarrow> string \<Rightarrow> double \<Rightarrow> database \<Rightarrow> (error + bool) \<times> database" where
  "transfer fault now sender receiver amount db =
     (if double_le amount (Finite 0) \<or> sender = [] \<or> receiver = [] \<or> sender = receiver
      then (Inr False, db)
      else if fault = Some 0 \<or> fault = Some 1 then (Inl Sqlite_Error, db)
      else case select_balance sender db of
             None \<Rightarrow> (Inr False, db)
           | Some v \<Rightarrow>
               (case select_user receiver db of
                  None \<Rightarrow> (Inr False, db)
                | Some _ \<Rightarrow>
                    (case v of
                       None \<Rightarrow> (Inl Type_Error, db)
                     | Some b \<Rightarrow>
                         if double_less b amount then (Inr False, db)
                         else (case execute fault 2 begin_stmt db
                                   \<bind> execute fault 3 (update_sub amount sender)
                                   \<bind> execute fault 4 (update_add amount receiver)
                                   \<bind> execute fault 5 (insert_transaction sender ''transfer_out'' amount now receiver)
                                   \<bind> execute fault 6 (insert_transaction receiver ''transfer_in'' amount now sender)
                                   \<bind> execute fault 7 commit of
                                 None \<Rightarrow> (Inr False, db)
                               | Some db' \<Rightarrow> (Inr True, db')))))"

text \<open>
  \<^verbatim>\<open>get_transactions\<close>: the rows of the user, \<^verbatim>\<open>ORDER BY id ASC\<close>, each as
  (type, amount, timestamp, other_party).
\<close>

definition get_transactions ::
    "nat option \<Rightarrow> string \<Rightarrow> database \<Rightarrow>
       (error + (string \<times> double option \<times> string \<times> string) list) \<times> database" where
  "get_transactions fault uname db =
     (if fault = Some 0 then (Inl Sqlite_Error, db)
      else (Inr (map (\<lambda>t. (tx_type t, tx_amount t, tx_timestamp t, tx_other_party t))
                  (sort_key tx_id (filter (\<lambda>t. tx_username t = uname) (transactions db)))), db))"

subsection \<open>Sequences of calls\<close>

datatype operation =
    Signup "nat option" string string string
  | Deposit "nat option" string string double
  | Withdraw "nat option" string string double
  | Transfer "nat option" string string string double

fun apply_operation :: "operation \<Rightarrow> database \<Rightarrow> database" where
  "apply_operation (Signup f h u p) db = snd (signup f h u p db)"
| "apply_operation (Deposit f now u a) db = snd (deposit f now u a db)"
| "apply_operation (Withdraw f now u a) db = snd (withdraw f now u a db)"
| "apply_operation (Transfer f now s r a) db = snd (transfer f now s r a db)"

fun run :: "operation list \<Rightarrow> database \<Rightarrow> database" where
  "run [] db = db"
| "run (x # xs) db = run xs (apply_operation x db)"

text \<open>
  Two \<^verbatim>\<open>withdraw\<close> calls on two connections, in the order: SELECT of the first,
  SELECT of the second, writes and commit of the first, writes and commit of the second.
  Each step sees the database as the commits before it left it.
\<close>

definition concurrent_withdraws ::
    "string \<Rightarrow> string \<Rightarrow> double \<Rightarrow> string \<Rightarrow> double \<Rightarrow> database \<Rightarrow>
       (error + bool) \<times> (error + bool) \<times> database" where
  "concurrent_withdraws now u1 a1 u2 a2 db =
     (let c1 = withdraw_check None u1 a1 db;
          c2 = withdraw_check None u2 a2 db;
          (r1, db1) = (if c1 = Inr True then withdraw_write None now u1 a1 db else (c1, db));
          (r2, db2) = (if c2 = Inr True then withdraw_write None now u2 a2 db1 else (c2, db1))
      in (r1, r2, db2))"

subsection \<open>The signed sum of a user's ledger entries\<close>

text \<open>
  The sign of an entry as giri.py displays it: \<^verbatim>\<open>t_type.lower() in ("deposit",
  "transfer_in")\<close> is a credit, every other type a debit. \<open>lower\<close> is
  \<^verbatim>\<open>str.lower\<close> on ASCII letters. The sum starts from the opening balance 0.0 and
  takes the user's rows in order of id.
\<close>

definition lower_char :: "char \<Rightarrow> char" where
  "lower_char c =
     (let n = (of_char c :: nat) in if 65 \<le> n \<and> n \<le> 90 then char_of (n + 32) else c)"

definition lower :: "string \<Rightarrow> string" where
  "lower s = map lower_char s"

definition is_credit :: "string \<Rightarrow> bool" where
  "is_credit ty = (lower ty = ''deposit'' \<or> lower ty = ''transfer_in'')"

definition add_entry :: "double option \<Rightarrow> txn_row \<Rightarrow> double option" where
  "add_entry acc t =
     (if is_credit (tx_type t) then sql_add acc (tx_amount t) else sql_sub acc (tx_amount t))"

definition ledger_sum :: "string \<Rightarrow> database \<Rightarrow> double option" where
  "ledger_sum u db =
     foldl add_entry (Some (Finite 0)) (filter (\<lambda>t. tx_username t = u) (transactions db))"

subsection \<open>An invariant of the log and two example databases\<close>

text \<open>
  Transaction ids increase in insertion order and none exceeds the AUTOINCREMENT counter.
\<close>

definition valid_ids :: "database \<Rightarrow> bool" where
  "valid_ids db =
     (sorted_wrt (<) (map tx_id (transactions db)) \<and>
      list_all (\<lambda>t. tx_id t \<le> sqlite_sequence db) (transactions db))"

text \<open>
  alice and bob sign up and alice deposits 100, or 1e16 in the second database.
\<close>

definition example_db :: database where
  "example_db =
     run [Signup None ''hash1'' ''alice'' ''pw1'', Signup None ''hash2'' ''bob'' ''pw2'',
          Deposit None ''2024-01-01 10:00:00'' ''alice'' (Finite 100)] create_tables"

definition rich_db :: database where
  "rich_db =
     run [Signup None ''hash1'' ''alice'' ''pw1'', Signup None ''hash2'' ''bob'' ''pw2'',
          Deposit None ''2024-01-01 10:00:00'' ''alice'' (Finite 10000000000000000)]
       create_tables"

section \<open>Rounding to a double\<close>

lemma round_to_even_int: "round_to_even (of_int k) = k"
  by (simp add: round_to_even_def)

lemma round_to_even_down:
  "of_int f \<le> r \<Longrightarrow> r < of_int f + 1 / 2 \<Longrightarrow> round_to_even r = f"
proof -
  assume a: "of_int f \<le> r" "r < of_int f + 1 / 2"
  then have "\<lfloor>r\<rfloor> = f" by linarith
  with a show ?thesis by (simp add: round_to_even_def)
qed

lemma round_to_even_up:
  "of_int f + 1 / 2 < r \<Longrightarrow> r < of_int f + 1 \<Longrightarrow> round_to_even r = f + 1"
proof -
  assume a: "of_int f + 1 / 2 < r" "r < of_int f + 1"
  then have "\<lfloor>r\<rfloor> = f" by linarith
  with a show ?thesis by (simp add: round_to_even_def)
qed

lemma ulp_pos: "0 < ulp x"
  by (simp add: ulp_def)

lemma exponent_eq:
  assumes "x \<noteq> 0" and "2 powi e \<le> \<bar>x\<bar>" and "\<bar>x\<bar> < 2 powi (e + 1)" and "- 1022 \<le> e"
  shows "exponent x = e"
proof -
  have p: "(2::real) powr real_of_int i = 2 powi i" for i
    by (rule powr_real_of_int') simp_all
  have "0 < \<bar>x\<bar>"
    using assms(1) by simp
  moreover have "2 powr real_of_int e \<le> \<bar>x\<bar>"
    using assms(2) by (simp only: p)
  moreover have "\<bar>x\<bar> < 2 powr real_of_int (e + 1)"
    using assms(3) by (simp only: p)
  ultimately have "\<lfloor>log 2 \<bar>x\<bar>\<rfloor> = e"
    using floor_log_eq_powr_iff [of "\<bar>x\<bar>" 2 e] by simp
  with assms(4) show ?thesis
    by (simp add: exponent_def)
qed

lemma round_double_eval:
  assumes "x \<noteq> 0" and "2 powi e \<le> \<bar>x\<bar>" and "\<bar>x\<bar> < 2 powi (e + 1)" and "- 1022 \<le> e"
    and "round_to_even (x / 2 powi (e - 52)) = m"
    and "\<bar>of_int m * 2 powi (e - 52)\<bar> \<le> max_double"
  shows "round_double x = Finite (of_int m * 2 powi (e - 52))"
proof -
  have "ulp x = 2 powi (e - 52)"
    using exponent_eq [OF assms(1-4)] by (simp add: ulp_def)
  with assms(1,5,6) show ?thesis
    by (auto simp add: round_double_def Let_def)
qed

lemma round_double_scaled:
  assumes "x / ulp x = of_int m" and "\<bar>x\<bar> \<le> max_double"
  shows "round_double x = Finite x"
proof -
  have "of_int m * ulp x = x"
    using assms(1) ulp_pos [of x] by (simp add: field_simps)
  with assms show ?thesis
    by (auto simp add: round_double_def Let_def round_to_even_int)
qed

lemma round_double_of_int:
  assumes "\<bar>k\<bar> < 2 ^ 53"
  shows "round_double (of_int k) = Finite (of_int k)"
proof (cases "k = 0")
  case True
  then show ?thesis by (simp add: round_double_def)
next
  case False
  let ?x = "real_of_int k"
  let ?f = "\<lfloor>log 2 \<bar>?x\<bar>\<rfloor>"
  from False have "1 \<le> \<bar>k\<bar>"
    by linarith
  then have "real_of_int 1 \<le> real_of_int \<bar>k\<bar>"
    by (simp only: of_int_le_iff)
  then have one: "1 \<le> \<bar>?x\<bar>"
    by simp
  from assms have "real_of_int \<bar>k\<bar> < real_of_int (2 ^ 53)"
    by (simp only: of_int_less_iff)
  then have lt: "\<bar>?x\<bar> < 2 ^ 53"
    by simp
  from lt have "log 2 \<bar>?x\<bar> < 53"
    using one by (subst log_less_iff) (simp_all add: powr_realpow [symmetric])
  moreover have "0 \<le> log 2 \<bar>?x\<bar>"
    using one by simp
  ultimately have f: "0 \<le> ?f" "?f \<le> 52"
    by linarith+
  then have e: "exponent ?x = ?f"
    by (simp add: exponent_def)
  define n where "n = nat (52 - ?f)"
  have "ulp ?x = 1 / 2 ^ n"
    using f by (simp add: ulp_def e n_def power_int_def field_simps)
  then have "?x / ulp ?x = of_int (k * 2 ^ n)"
    by simp
  moreover have "\<bar>?x\<bar> \<le> max_double"
    using lt by (simp add: max_double_def)
  ultimately show ?thesis
    by (rule round_double_scaled)
qed

lemma double_less_pos_not_le: "double_less (Finite 0) a \<Longrightarrow> \<not> double_le a (Finite 0)"
  by (cases a) (simp_all add: double_le_def)

lemma double_less_pos_not_NaN: "double_less (Finite 0) a \<Longrightarrow> a \<noteq> NaN"
  by (cases a) simp_all

lemma double_le_not_less: "double_le a b \<Longrightarrow> \<not> double_less b a"
  by (cases a; cases b) (auto simp add: double_le_def)

lemma bind_real_Some: "a \<noteq> NaN \<Longrightarrow> bind_real a = Some a"
  by (simp add: bind_real_def)

lemma bind_real_Finite: "bind_real (Finite x) = Some (Finite x)"
  by (simp add: bind_real_def)

lemma round_double_not_NaN: "round_double x \<noteq> NaN"
  by (simp add: round_double_def Let_def)

lemma sql_add_Finite:
  "sql_add (Some (Finite x)) (Some (Finite y)) = Some (round_double (x + y))"
  by (simp add: sql_add_def bind_real_def round_double_not_NaN)

lemma sql_sub_Finite:
  "sql_sub (Some (Finite x)) (Some (Finite y)) = Some (round_double (x - y))"
  by (simp add: sql_sub_def double_sub_def bind_real_def round_double_not_NaN)

lemmas round_double_examples =
  round_double_of_int [of 20, simplified] round_double_of_int [of 40, simplified]
  round_double_of_int [of 50, simplified] round_double_of_int [of 60, simplified]
  round_double_of_int [of 100, simplified] round_double_of_int [of "- 20", simplified]
  round_double_of_int [of "- 30", simplified]

lemma round_double_1e16: "round_double 10000000000000000 = Finite 10000000000000000"
proof -
  have "round_to_even (10000000000000000 / 2 powi (53 - 52)) = 5000000000000000"
    using round_to_even_int [of 5000000000000000] by simp
  then show ?thesis
    using round_double_eval [of 10000000000000000 53 5000000000000000]
    by (simp add: max_double_def)
qed

lemma round_double_1e16_minus_half:
  "round_double (19999999999999999 / 2) = Finite 10000000000000000"
proof -
  have "round_to_even ((19999999999999999 / 2) / 2 powi (53 - 52)) = 4999999999999999 + 1"
    by (rule round_to_even_up) simp_all
  then show ?thesis
    using round_double_eval [of "19999999999999999 / 2" 53 5000000000000000]
    by (simp add: max_double_def)
qed

lemma round_double_half: "round_double (1 / 2) = Finite (1 / 2)"
proof -
  have "round_to_even ((1 / 2) / 2 powi (- 1 - 52)) = 4503599627370496"
    using round_to_even_int [of 4503599627370496] by (simp add: power_int_def power_divide)
  then show ?thesis
    using round_double_eval [of "1 / 2" "- 1" 4503599627370496]
    by (simp add: max_double_def power_int_def power_divide)
qed

section \<open>What the statements and operations compute\<close>

lemma deposit_result:
  "deposit f now u a db =
     (if double_le a (Finite 0) \<or> f = Some 0 \<or> f = Some 1 \<or> f = Some 2 then (Inr False, db)
      else (Inr True, insert_transaction u ''Deposit'' a now '''' (update_add a u db)))"
  by (simp add: deposit_def execute_def commit_def)

lemma withdraw_write_result:
  "withdraw_write f now u a db =
     (if f = Some 1 \<or> f = Some 2 \<or> f = Some 3 then (Inr False, db)
      else (Inr True, insert_transaction u ''Withdraw'' a now '''' (update_sub a u db)))"
  by (simp add: withdraw_write_def execute_def commit_def)

lemma withdraw_result:
  "withdraw f now u a db =
     (if double_le a (Finite 0) then (Inr False, db)
      else if f = Some 0 then (Inl Sqlite_Error, db)
      else case select_balance u db of
             None \<Rightarrow> (Inr False, db)
           | Some None \<Rightarrow> (Inl Type_Error, db)
           | Some (Some b) \<Rightarrow>
               if double_less b a \<or> f = Some 1 \<or> f = Some 2 \<or> f = Some 3 then (Inr False, db)
               else (Inr True, insert_transaction u ''Withdraw'' a now '''' (update_sub a u db)))"
  by (simp add: withdraw_def withdraw_check_def withdraw_write_result Let_def
      split: option.splits)

lemma transfer_result:
  "transfer f now s r a db =
     (if double_le a (Finite 0) \<or> s = [] \<or> r = [] \<or> s = r then (Inr False, db)
      else if f = Some 0 \<or> f = Some 1 then (Inl Sqlite_Error, db)
      else case select_balance s db of
             None \<Rightarrow> (Inr False, db)
           | Some v \<Rightarrow>
               if select_user r db = None then (Inr False, db)
               else case v of
                      None \<Rightarrow> (Inl Type_Error, db)
                    | Some b \<Rightarrow>
                        if double_less b a \<or> f \<in> Some ` {2, 3, 4, 5, 6, 7}
                        then (Inr False, db)
                        else (Inr True,
                              insert_transaction r ''transfer_in'' a now s
                                (insert_transaction s ''transfer_out'' a now r
                                   (update_add a r (update_sub a s db)))))"
  by (auto simp add: transfer_def execute_def commit_def begin_stmt_def split: option.splits)

lemma transfer_True:
  assumes "transfer f now s r a db = (Inr True, db')"
  shows "s \<noteq> r \<and> \<not> double_le a (Finite 0) \<and>
         (\<exists>b. select_balance s db = Some (Some b) \<and> \<not> double_less b a) \<and>
         select_user r db \<noteq> None \<and>
         db' = insert_transaction r ''transfer_in'' a now s
                 (insert_transaction s ''transfer_out'' a now r
                    (update_add a r (update_sub a s db)))"
  using assms by (auto simp add: transfer_result split: if_splits option.splits)

lemma find_balance_add:
  "map_option balance (find (\<lambda>r. username r = u)
      (map (\<lambda>r. if username r = v then r\<lparr>balance := sql_add (balance r) w\<rparr> else r) xs)) =
   (if u = v then map_option (\<lambda>b. sql_add b w) (map_option balance (find (\<lambda>r. username r = u) xs))
    else map_option balance (find (\<lambda>r. username r = u) xs))"
  by (induction xs) auto

lemma find_balance_sub:
  "map_option balance (find (\<lambda>r. username r = u)
      (map (\<lambda>r. if username r = v then r\<lparr>balance := sql_sub (balance r) w\<rparr> else r) xs)) =
   (if u = v then map_option (\<lambda>b. sql_sub b w) (map_option balance (find (\<lambda>r. username r = u) xs))
    else map_option balance (find (\<lambda>r. username r = u) xs))"
  by (induction xs) auto

lemma select_balance_update_add:
  "select_balance u (update_add a v db) =
     (if u = v then map_option (\<lambda>b. sql_add b (bind_real a)) (select_balance u db)
      else select_balance u db)"
  unfolding select_balance_def select_user_def update_add_def
  by (simp add: find_balance_add)

lemma select_balance_update_sub:
  "select_balance u (update_sub a v db) =
     (if u = v then map_option (\<lambda>b. sql_sub b (bind_real a)) (select_balance u db)
      else select_balance u db)"
  unfolding select_balance_def select_user_def update_sub_def
  by (simp add: find_balance_sub)

lemma select_balance_insert_transaction:
  "select_balance u (insert_transaction v ty a ts other db) = select_balance u db"
  by (simp add: select_balance_def select_user_def insert_transaction_def)

lemma transactions_update_add: "transactions (update_add a u db) = transactions db"
  by (simp add: update_add_def)

lemma transactions_update_sub: "transactions (update_sub a u db) = transactions db"
  by (simp add: update_sub_def)

lemma sqlite_sequence_update_add: "sqlite_sequence (update_add a u db) = sqlite_sequence db"
  by (simp add: update_add_def)

lemma sqlite_sequence_update_sub: "sqlite_sequence (update_sub a u db) = sqlite_sequence db"
  by (simp add: update_sub_def)

lemma transactions_insert_transaction:
  "transactions (insert_transaction u ty a ts other db) =
     transactions db @ [\<lparr>tx_id = Suc (sqlite_sequence db), tx_username = u, tx_type = ty,
        tx_amount = bind_real a, tx_timestamp = ts, tx_other_party = other\<rparr>]"
  by (simp add: insert_transaction_def)

lemma sqlite_sequence_insert_transaction:
  "sqlite_sequence (insert_transaction u ty a ts other db) = Suc (sqlite_sequence db)"
  by (simp add: insert_transaction_def)

lemma valid_ids_insert_transaction:
  "valid_ids db \<Longrightarrow> valid_ids (insert_transaction u ty a ts other db)"
  by (fastforce simp add: valid_ids_def insert_transaction_def sorted_wrt_append list_all_iff)

lemma valid_ids_update_add: "valid_ids (update_add a u db) = valid_ids db"
  by (simp add: valid_ids_def update_add_def)

lemma valid_ids_update_sub: "valid_ids (update_sub a u db) = valid_ids db"
  by (simp add: valid_ids_def update_sub_def)

lemma valid_ids_insert_user: "valid_ids (insert_user u h db) = valid_ids db"
  by (simp add: valid_ids_def insert_user_def)

lemma valid_ids_apply_operation:
  assumes "valid_ids db"
  shows "valid_ids (apply_operation x db)"
proof (cases x)
  case (Signup f h u p)
  with assms show ?thesis
    by (simp add: signup_def commit_def valid_ids_insert_user)
next
  case (Deposit f now u a)
  with assms show ?thesis
    by (simp add: deposit_result valid_ids_insert_transaction valid_ids_update_add)
next
  case (Withdraw f now u a)
  with assms show ?thesis
    by (simp add: withdraw_result valid_ids_insert_transaction valid_ids_update_sub
        split: option.splits)
next
  case (Transfer f now s r a)
  with assms show ?thesis
    by (simp add: transfer_result valid_ids_insert_transaction valid_ids_update_sub
        valid_ids_update_add split: option.splits)
qed

lemma valid_ids_run: "valid_ids db \<Longrightarrow> valid_ids (run ops db)"
  by (induction ops arbitrary: db) (simp_all add: valid_ids_apply_operation)

lemma valid_ids_create_tables: "valid_ids create_tables"
  by (simp add: valid_ids_def create_tables_def)

lemma order_by_id_valid:
  assumes "valid_ids db"
  shows "sort_key tx_id (filter P (transactions db)) = filter P (transactions db)"
proof -
  from assms have "sorted (map tx_id (transactions db))"
    by (simp add: valid_ids_def strict_sorted_imp_sorted)
  then have "sorted (map tx_id (filter P (transactions db)))"
    by (rule sorted_filter)
  then show ?thesis
    by (rule sort_key_id_if_sorted)
qed

lemmas all_defs = signup_def deposit_def withdraw_def withdraw_check_def withdraw_write_def
  transfer_def create_tables_def execute_def update_add_def update_sub_def
  insert_transaction_def insert_user_def begin_stmt_def commit_def select_balance_def
  select_user_def double_le_def double_sub_def bind_real_def sql_add_def sql_sub_def

lemma example_db_rows:
  "example_db =
     \<lparr>users = [\<lparr>username = ''alice'', password = ''hash1'', balance = Some (Finite 100)\<rparr>,
               \<lparr>username = ''bob'', password = ''hash2'', balance = Some (Finite 0)\<rparr>],
      transactions = [\<lparr>tx_id = 1, tx_username = ''alice'', tx_type = ''Deposit'',
                       tx_amount = Some (Finite 100), tx_timestamp = ''2024-01-01 10:00:00'',
                       tx_other_party = ''''\<rparr>],
      sqlite_sequence = 1\<rparr>"
  by (simp add: example_db_def all_defs round_double_examples)

lemma rich_db_rows:
  "rich_db =
     \<lparr>users = [\<lparr>username = ''alice'', password = ''hash1'',
                balance = Some (Finite 10000000000000000)\<rparr>,
               \<lparr>username = ''bob'', password = ''hash2'', balance = Some (Finite 0)\<rparr>],
      transactions = [\<lparr>tx_id = 1, tx_username = ''alice'', tx_type = ''Deposit'',
                       tx_amount = Some (Finite 10000000000000000),
                       tx_timestamp = ''2024-01-01 10:00:00'', tx_other_party = ''''\<rparr>],
      sqlite_sequence = 1\<rparr>"
  by (simp add: rich_db_def all_defs round_double_1e16)

lemma example_transfer:
  "transfer None ''2024-01-03 12:00:00'' ''alice'' ''bob'' (Finite 40) example_db =
     (Inr True,
      \<lparr>users = [\<lparr>username = ''alice'', password = ''hash1'', balance = Some (Finite 60)\<rparr>,
               \<lparr>username = ''bob'', password = ''hash2'', balance = Some (Finite 40)\<rparr>],
      transactions = [\<lparr>tx_id = 1, tx_username = ''alice'', tx_type = ''Deposit'',
                       tx_amount = Some (Finite 100), tx_timestamp = ''2024-01-01 10:00:00'',
                       tx_other_party = ''''\<rparr>,
      \<lparr>tx_id = 2, tx_username = ''alice'', tx_type = ''transfer_out'',
                       tx_amount = Some (Finite 40), tx_timestamp = ''2024-01-03 12:00:00'',
                       tx_other_party = ''bob''\<rparr>,
      \<lparr>tx_id = 3, tx_username = ''bob'', tx_type = ''transfer_in'',
                       tx_amount = Some (Finite 40), tx_timestamp = ''2024-01-03 12:00:00'',
                       tx_other_party = ''alice''\<rparr>],
      sqlite_sequence = 3\<rparr>)"
  by (simp add: example_db_rows all_defs round_double_examples)

lemma is_credit_Deposit: "is_credit ''Deposit''"
  by code_simp

lemma withdraw_check_then_write:
  "withdraw fault now u a db =
     (if withdraw_check fault u a db = Inr True then withdraw_write fault now u a db
      else (withdraw_check fault u a db, db))"
  by (simp add: withdraw_def Let_def)

section \<open>The claims\<close>

subsection \<open>C1: balance and ledger\<close>

text \<open>
  Claim C1 says that after every sequence of signup, deposit, withdraw and transfer calls
  an account's balance is the signed sum of the ledger rows under its username. The code
  breaks this: \<^verbatim>\<open>deposit\<close> does not check that the account exists (as
  \<^verbatim>\<open>withdraw\<close> and \<^verbatim>\<open>transfer\<close> do), so a deposit of 50 for the unknown
  user ghost updates no row and still logs a Deposit row; when ghost then signs up, the
  account has balance 0 and a ledger sum of 50.
\<close>

theorem ledger_sum_differs_from_balance:
  "get_balance None ''ghost''
     (run [Deposit None ''2024-01-01 00:00:00'' ''ghost'' (Finite 50),
           Signup None ''hash'' ''ghost'' ''pw''] create_tables)
     = (Inr (Finite 0), run [Deposit None ''2024-01-01 00:00:00'' ''ghost'' (Finite 50),
                    Signup None ''hash'' ''ghost'' ''pw''] create_tables) \<and>
   select_user ''ghost''
     (run [Deposit None ''2024-01-01 00:00:00'' ''ghost'' (Finite 50),
           Signup None ''hash'' ''ghost'' ''pw''] create_tables)
     = Some \<lparr>username = ''ghost'', password = ''hash'', balance = Some (Finite 0)\<rparr> \<and>
   ledger_sum ''ghost''
     (run [Deposit None ''2024-01-01 00:00:00'' ''ghost'' (Finite 50),
           Signup None ''hash'' ''ghost'' ''pw''] create_tables) = Some (Finite 50)"
  by (simp add: all_defs get_balance_def ledger_sum_def add_entry_def is_credit_Deposit
      round_double_examples)

subsection \<open>C2: transfer is all or nothing\<close>

text \<open>
  Claim C2 as stated, that a successful transfer decreases the sender's balance by the
  amount and increases the receiver's by it, is false: the balances are REAL columns and
  the UPDATEs compute in double arithmetic. With alice at 1e16, a transfer of 0.5 to bob
  returns True, leaves alice at 1e16 (the double nearest 1e16 - 0.5) and gives bob 0.5.
\<close>

theorem transfer_rounding_counterexample:
  "select_balance ''alice'' rich_db = Some (Some (Finite 10000000000000000)) \<and>
   select_balance ''bob'' rich_db = Some (Some (Finite 0)) \<and>
   fst (transfer None ''2024-01-03 12:00:00'' ''alice'' ''bob'' (Finite (1 / 2)) rich_db)
     = Inr True \<and>
   select_balance ''alice''
     (snd (transfer None ''2024-01-03 12:00:00'' ''alice'' ''bob'' (Finite (1 / 2)) rich_db))
     = Some (Some (Finite 10000000000000000)) \<and>
   select_balance ''bob''
     (snd (transfer None ''2024-01-03 12:00:00'' ''alice'' ''bob'' (Finite (1 / 2)) rich_db))
     = Some (Some (Finite (1 / 2)))"
  by (simp add: rich_db_rows all_defs round_double_1e16_minus_half round_double_half
      round_double_not_NaN)

text \<open>
  Claim C2, amended. Whenever \<^verbatim>\<open>transfer(sender, receiver, amount)\<close> does not
  return True (an amount not above 0, sender equal to receiver, a missing sender or
  receiver, a sender balance below the amount, an exception, or an
  \<^verbatim>\<open>sqlite3.Error\<close> in any of its eight database calls) the database is left as it
  was: no balance changes and no row is written. Whenever it returns True the sender's
  balance has become the value SQLite computes for balance - amount and the receiver's the
  value for balance + amount (the double nearest the exact result; NULL when the amount is
  NaN or the result is), and exactly two rows were appended: a transfer_out row of the
  sender naming the receiver and a transfer_in row of the receiver naming the sender, both
  with the amount as it was bound.
\<close>

theorem transfer_atomic:
  assumes "transfer fault now sender receiver amount db = (res, db')"
  shows "(res \<noteq> Inr True \<longrightarrow> db' = db) \<and>
         (double_le amount (Finite 0) \<or> sender = receiver \<or> select_user sender db = None \<or>
          select_user receiver db = None \<or>
          (\<exists>b. select_balance sender db = Some (Some b) \<and> double_less b amount) \<or>
          (\<exists>k. fault = Some k \<and> k \<le> 7) \<longrightarrow> res \<noteq> Inr True) \<and>
         (res = Inr True \<longrightarrow>
            (\<exists>bs br. select_balance sender db = Some (Some bs) \<and>
                     select_balance receiver db = Some br \<and>
                     select_balance sender db' = Some (sql_sub (Some bs) (bind_real amount)) \<and>
                     select_balance receiver db' = Some (sql_add br (bind_real amount))) \<and>
            transactions db' = transactions db @
              [\<lparr>tx_id = Suc (sqlite_sequence db), tx_username = sender,
                tx_type = ''transfer_out'', tx_amount = bind_real amount, tx_timestamp = now,
                tx_other_party = receiver\<rparr>,
               \<lparr>tx_id = Suc (Suc (sqlite_sequence db)), tx_username = receiver,
                tx_type = ''transfer_in'', tx_amount = bind_real amount, tx_timestamp = now,
                tx_other_party = sender\<rparr>])"
proof (intro conjI impI)
  assume "res \<noteq> Inr True"
  with assms show "db' = db"
    by (auto simp add: transfer_result split: if_splits option.splits)
next
  assume "double_le amount (Finite 0) \<or> sender = receiver \<or> select_user sender db = None \<or>
          select_user receiver db = None \<or>
          (\<exists>b. select_balance sender db = Some (Some b) \<and> double_less b amount) \<or>
          (\<exists>k. fault = Some k \<and> k \<le> 7)"
  with assms show "res \<noteq> Inr True"
    by (auto simp add: transfer_result select_balance_def le_Suc_eq numeral_eq_Suc
        split: if_splits option.splits)
next
  assume ok: "res = Inr True"
  with assms have t: "transfer fault now sender receiver amount db = (Inr True, db')"
    by simp
  from transfer_True [OF t] obtain bs where
    ne: "sender \<noteq> receiver" and bs: "select_balance sender db = Some (Some bs)" and
    rv: "select_user receiver db \<noteq> None" and
    db': "db' = insert_transaction receiver ''transfer_in'' amount now sender
                 (insert_transaction sender ''transfer_out'' amount now receiver
                    (update_add amount receiver (update_sub amount sender db)))"
    by blast
  from rv obtain br where br: "select_balance receiver db = Some br"
    by (auto simp add: select_balance_def)
  have "select_balance sender db' = Some (sql_sub (Some bs) (bind_real amount))"
    using ne bs by (simp add: db' select_balance_insert_transaction
        select_balance_update_add select_balance_update_sub)
  moreover have "select_balance receiver db' = Some (sql_add br (bind_real amount))"
    using ne br by (simp add: db' select_balance_insert_transaction
        select_balance_update_add select_balance_update_sub)
  ultimately show "\<exists>bs br. select_balance sender db = Some (Some bs) \<and>
                     select_balance receiver db = Some br \<and>
                     select_balance sender db' = Some (sql_sub (Some bs) (bind_real amount)) \<and>
                     select_balance receiver db' = Some (sql_add br (bind_real amount))"
    using bs br by blast
  show "transactions db' = transactions db @
              [\<lparr>tx_id = Suc (sqlite_sequence db), tx_username = sender,
                tx_type = ''transfer_out'', tx_amount = bind_real amount, tx_timestamp = now,
                tx_other_party = receiver\<rparr>,
               \<lparr>tx_id = Suc (Suc (sqlite_sequence db)), tx_username = receiver,
                tx_type = ''transfer_in'', tx_amount = bind_real amount, tx_timestamp = now,
                tx_other_party = sender\<rparr>]"
    by (simp add: db' transactions_insert_transaction sqlite_sequence_insert_transaction
        transactions_update_add transactions_update_sub
        sqlite_sequence_update_add sqlite_sequence_update_sub)
qed

text \<open>
  Witness for C2, amended, on the example database: alice sends 40 to bob; sending 400
  fails and changes nothing.
\<close>

theorem transfer_atomic_witness:
  "transfer None ''2024-01-03 12:00:00'' ''alice'' ''bob'' (Finite 400) example_db
     = (Inr False, example_db) \<and>
   fst (transfer None ''2024-01-03 12:00:00'' ''alice'' ''bob'' (Finite 40) example_db) = Inr True \<and>
   select_balance ''alice''
     (snd (transfer None ''2024-01-03 12:00:00'' ''alice'' ''bob'' (Finite 40) example_db))
     = Some (Some (Finite 60)) \<and>
   select_balance ''bob''
     (snd (transfer None ''2024-01-03 12:00:00'' ''alice'' ''bob'' (Finite 40) example_db))
     = Some (Some (Finite 40)) \<and>
   length (transactions
     (snd (transfer None ''2024-01-03 12:00:00'' ''alice'' ''bob'' (Finite 40) example_db))) = 3"
proof -
  have a: "select_balance ''alice'' example_db = Some (Some (Finite 100))"
    by (simp add: example_db_rows select_balance_def select_user_def)
  have b: "select_balance ''bob'' example_db = Some (Some (Finite 0))"
    by (simp add: example_db_rows select_balance_def select_user_def)
  have t: "length (transactions example_db) = 1"
    by (simp add: example_db_rows)
  have u: "select_user ''bob'' example_db \<noteq> None"
    by (simp add: example_db_rows select_user_def)
  have ok: "fst (transfer None ''2024-01-03 12:00:00'' ''alice'' ''bob'' (Finite 40) example_db)
      = Inr True"
    using a u by (simp add: transfer_result double_le_def)
  have no: "fst (transfer None ''2024-01-03 12:00:00'' ''alice'' ''bob'' (Finite 400) example_db)
      = Inr False"
    using a u by (simp add: transfer_result double_le_def)
  from transfer_atomic [OF surjective_pairing, of None "''2024-01-03 12:00:00''" "''alice''"
      "''bob''" "Finite 400" example_db]
  have "snd (transfer None ''2024-01-03 12:00:00'' ''alice'' ''bob'' (Finite 400) example_db)
      = example_db"
    by (simp add: no)
  with no have first: "transfer None ''2024-01-03 12:00:00'' ''alice'' ''bob'' (Finite 400) example_db
      = (Inr False, example_db)"
    by (simp add: prod_eq_iff)
  from transfer_atomic [OF surjective_pairing, of None "''2024-01-03 12:00:00''" "''alice''"
      "''bob''" "Finite 40" example_db]
  show ?thesis
    by (simp add: ok first a b t bind_real_Finite sql_add_Finite sql_sub_Finite
        round_double_examples)
qed

subsection \<open>C3: deposit for an unknown user\<close>

text \<open>
  Claim C3 says that \<^verbatim>\<open>deposit\<close> fails when no account has the username and
  then leaves accounts and log unchanged. The code returns True there and appends a
  Deposit row: the UPDATE matches no row and raises nothing, and the INSERT follows.
\<close>

theorem deposit_unknown_user_succeeds:
  "select_user ''ghost'' create_tables = None \<and>
   deposit None ''2024-01-01 00:00:00'' ''ghost'' (Finite 50) create_tables =
     (Inr True,
      \<lparr>users = [],
       transactions = [\<lparr>tx_id = 1, tx_username = ''ghost'', tx_type = ''Deposit'',
                        tx_amount = Some (Finite 50), tx_timestamp = ''2024-01-01 00:00:00'',
                        tx_other_party = ''''\<rparr>],
       sqlite_sequence = 1\<rparr>)"
  by (simp add: all_defs)

subsection \<open>C4: no balance is ever negative\<close>

text \<open>
  Claim C4 says that no committed state has a negative balance, because withdraw and
  transfer fail rather than overdraw. The code breaks this when two withdrawals run
  concurrently: \<^verbatim>\<open>withdraw\<close> tests the balance in one statement and debits it in
  another, with nothing holding the two together. With alice at 100, withdrawals of 80 and
  50 whose SELECTs both come before the first UPDATE both return True, and the balance
  committed is -30.
\<close>

theorem concurrent_withdrawals_negative_balance:
  "select_balance ''alice'' example_db = Some (Some (Finite 100)) \<and>
   fst (concurrent_withdraws ''2024-01-02 09:00:00'' ''alice'' (Finite 80) ''alice'' (Finite 50)
          example_db) = Inr True \<and>
   fst (snd (concurrent_withdraws ''2024-01-02 09:00:00'' ''alice'' (Finite 80) ''alice'' (Finite 50)
          example_db)) = Inr True \<and>
   select_balance ''alice''
     (snd (snd (concurrent_withdraws ''2024-01-02 09:00:00'' ''alice'' (Finite 80) ''alice''
          (Finite 50) example_db))) = Some (Some (Finite (- 30))) \<and>
   double_less (Finite (- 30)) (Finite 0)"
  by (simp add: concurrent_withdraws_def Let_def example_db_rows all_defs
      round_double_examples)

subsection \<open>C5: withdraw\<close>

text \<open>
  Claim C5 as stated, that a successful withdrawal leaves the balance at \<open>b - amount\<close>,
  is false: the UPDATE computes in double arithmetic. With alice at 1e16, a withdrawal of
  0.5 returns True and leaves the balance at 1e16, the double nearest 1e16 - 0.5.
\<close>

theorem withdraw_rounding_counterexample:
  "select_balance ''alice'' rich_db = Some (Some (Finite 10000000000000000)) \<and>
   fst (withdraw None ''2024-01-02 09:00:00'' ''alice'' (Finite (1 / 2)) rich_db) = Inr True \<and>
   select_balance ''alice''
     (snd (withdraw None ''2024-01-02 09:00:00'' ''alice'' (Finite (1 / 2)) rich_db))
     = Some (Some (Finite 10000000000000000)) \<and>
   (10000000000000000 :: real) \<noteq> 10000000000000000 - 1 / 2"
  by (simp add: rich_db_rows all_defs round_double_1e16_minus_half round_double_not_NaN)

text \<open>
  Claim C5, amended. For an existing account with balance \<open>b\<close> and an amount above 0:
  if \<open>b\<close> is at least the amount (and none of the four database calls raises) withdraw
  returns True, the balance becomes the double difference of \<open>b\<close> and the amount as
  SQLite stores it (the double nearest \<open>b - amount\<close>; NULL for infinity minus infinity)
  and exactly one Withdraw row for that amount is appended; if \<open>b\<close> is below the
  amount it fails for insufficient funds (the code reports every failure as False; the
  exception of a failing SELECT is the only other outcome) and balance and log are
  unchanged.
\<close>

theorem withdraw_spec:
  assumes "select_balance u db = Some (Some b)" and "double_less (Finite 0) amount"
  shows "(double_le amount b \<and> fault \<notin> {Some 0, Some 1, Some 2, Some 3} \<longrightarrow>
            (\<exists>db'. withdraw fault now u amount db = (Inr True, db') \<and>
                   select_balance u db' = Some (bind_real (double_sub b amount)) \<and>
                   transactions db' = transactions db @
                     [\<lparr>tx_id = Suc (sqlite_sequence db), tx_username = u,
                       tx_type = ''Withdraw'', tx_amount = Some amount, tx_timestamp = now,
                       tx_other_party = ''''\<rparr>])) \<and>
         (double_less b amount \<longrightarrow>
            withdraw fault now u amount db =
              (if fault = Some 0 then Inl Sqlite_Error else Inr False, db))"
proof -
  have p: "\<not> double_le amount (Finite 0)"
    using assms(2) by (rule double_less_pos_not_le)
  have n: "bind_real amount = Some amount"
    using assms(2) by (simp add: bind_real_Some double_less_pos_not_NaN)
  have "\<not> double_less b amount" if "double_le amount b"
    using that by (rule double_le_not_less)
  then show ?thesis
    using assms(1) p n
    by (auto simp add: withdraw_result select_balance_insert_transaction
        select_balance_update_sub transactions_insert_transaction transactions_update_sub
        sqlite_sequence_update_sub sql_sub_def)
qed

text \<open>
  Witness for C5, amended: on the example database alice (balance 100) cannot withdraw
  150 and can withdraw 60.
\<close>

theorem withdraw_spec_witness:
  "withdraw None ''2024-01-02 09:00:00'' ''alice'' (Finite 150) example_db
     = (Inr False, example_db) \<and>
   (\<exists>db'. withdraw None ''2024-01-02 09:00:00'' ''alice'' (Finite 60) example_db = (Inr True, db') \<and>
          select_balance ''alice'' db' = Some (Some (Finite 40)) \<and>
          transactions db' = transactions example_db @
            [\<lparr>tx_id = 2, tx_username = ''alice'', tx_type = ''Withdraw'',
              tx_amount = Some (Finite 60), tx_timestamp = ''2024-01-02 09:00:00'',
              tx_other_party = ''''\<rparr>])"
proof -
  have b: "select_balance ''alice'' example_db = Some (Some (Finite 100))"
    by (simp add: example_db_rows select_balance_def select_user_def)
  have s: "sqlite_sequence example_db = 1"
    by (simp add: example_db_rows)
  have p: "double_less (Finite 0) (Finite 150)" "double_less (Finite 0) (Finite 60)"
    by simp_all
  show ?thesis
    using withdraw_spec [OF b p(1), of None "''2024-01-02 09:00:00''"]
      withdraw_spec [OF b p(2), of None "''2024-01-02 09:00:00''"]
    by (simp add: s numeral_2_eq_2 double_le_def double_sub_def bind_real_def
        round_double_examples)
qed

subsection \<open>C6: get_balance\<close>

text \<open>
  Claim C6 as stated, that \<^verbatim>\<open>get_balance\<close> fails with NotFound when no account
  has the username, is false: for the unknown user ghost it returns 0.0, as its docstring
  says.
\<close>

theorem get_balance_unknown_user_counterexample:
  "select_user ''ghost'' create_tables = None \<and>
   get_balance None ''ghost'' create_tables = (Inr (Finite 0), create_tables)"
  by (simp add: get_balance_def select_balance_def select_user_def create_tables_def)

text \<open>
  Claim C6, amended: \<^verbatim>\<open>get_balance(username)\<close> returns the balance of the account
  when it exists and 0.0 when it does not; it is a read that leaves the database as it
  was, also when its SELECT raises. (A balance that is NULL, which only a NaN amount or
  infinity minus infinity leaves behind, makes \<^verbatim>\<open>float(row[0])\<close> raise TypeError.)
\<close>

theorem get_balance_reads:
  "get_balance fault u db =
     (if fault = Some 0 then Inl Sqlite_Error
      else case select_user u db of
             None \<Rightarrow> Inr (Finite 0)
           | Some r \<Rightarrow> (case balance r of None \<Rightarrow> Inl Type_Error | Some b \<Rightarrow> Inr b), db)"
  by (simp add: get_balance_def select_balance_def split: option.splits)

text \<open>Witness for C6, amended: alice's balance is 100, ghost's is reported as 0.\<close>

theorem get_balance_reads_witness:
  "get_balance None ''alice'' example_db = (Inr (Finite 100), example_db) \<and>
   get_balance None ''ghost'' example_db = (Inr (Finite 0), example_db)"
  using get_balance_reads [of None "''alice''" example_db]
    get_balance_reads [of None "''ghost''" example_db]
  by (simp add: select_user_def) (simp add: example_db_rows)

subsection \<open>C7: the two rows of a transfer\<close>

text \<open>
  Claim C7 as stated, that both rows of a transfer carry the same operation id, is false:
  a row has the six columns of \<^verbatim>\<open>create_tables\<close> only, and the one id it has
  differs between the two rows (2 and 3 below).
\<close>

theorem transfer_operation_id_counterexample:
  "fst (transfer None ''2024-01-03 12:00:00'' ''alice'' ''bob'' (Finite 40) example_db) = Inr True \<and>
   drop (length (transactions example_db))
     (transactions (snd (transfer None ''2024-01-03 12:00:00'' ''alice'' ''bob'' (Finite 40) example_db)))
     = [\<lparr>tx_id = 2, tx_username = ''alice'', tx_type = ''transfer_out'',
         tx_amount = Some (Finite 40), tx_timestamp = ''2024-01-03 12:00:00'',
         tx_other_party = ''bob''\<rparr>,
        \<lparr>tx_id = 3, tx_username = ''bob'', tx_type = ''transfer_in'',
         tx_amount = Some (Finite 40), tx_timestamp = ''2024-01-03 12:00:00'',
         tx_other_party = ''alice''\<rparr>] \<and>
   tx_id (transactions (snd (transfer None ''2024-01-03 12:00:00'' ''alice'' ''bob'' (Finite 40) example_db)) ! 1)
     \<noteq>
   tx_id (transactions (snd (transfer None ''2024-01-03 12:00:00'' ''alice'' ''bob'' (Finite 40) example_db)) ! 2)"
  by (simp add: example_transfer) (simp add: example_db_rows)

text \<open>
  Claim C7, amended: every successful transfer appends exactly one transfer_out row and
  one transfer_in row, with the same amount and with username and other_party crossed;
  the rows share no operation id: their ids are two consecutive, different values.
\<close>

theorem transfer_rows_paired:
  assumes "transfer fault now sender receiver amount db = (Inr True, db')"
  shows "\<exists>t1 t2. transactions db' = transactions db @ [t1, t2] \<and>
           tx_type t1 = ''transfer_out'' \<and> tx_type t2 = ''transfer_in'' \<and>
           tx_username t1 = sender \<and> tx_other_party t1 = receiver \<and>
           tx_username t2 = receiver \<and> tx_other_party t2 = sender \<and>
           tx_amount t1 = bind_real amount \<and> tx_amount t2 = bind_real amount \<and>
           tx_id t1 = Suc (sqlite_sequence db) \<and> tx_id t2 = Suc (tx_id t1) \<and>
           tx_id t1 \<noteq> tx_id t2"
proof -
  from transfer_True [OF assms]
  have "db' = insert_transaction receiver ''transfer_in'' amount now sender
                 (insert_transaction sender ''transfer_out'' amount now receiver
                    (update_add amount receiver (update_sub amount sender db)))"
    by blast
  then show ?thesis
    by (simp add: transactions_insert_transaction sqlite_sequence_insert_transaction
        transactions_update_add transactions_update_sub
        sqlite_sequence_update_add sqlite_sequence_update_sub)
qed

text \<open>Witness for C7, amended: alice sends 40 to bob on the example database.\<close>

theorem transfer_rows_paired_witness:
  "\<exists>t1 t2. transactions (snd (transfer None ''2024-01-03 12:00:00'' ''alice'' ''bob'' (Finite 40) example_db))
           = transactions example_db @ [t1, t2] \<and>
           tx_type t1 = ''transfer_out'' \<and> tx_type t2 = ''transfer_in'' \<and>
           tx_username t1 = ''alice'' \<and> tx_other_party t1 = ''bob'' \<and>
           tx_username t2 = ''bob'' \<and> tx_other_party t2 = ''alice'' \<and>
           tx_amount t1 = Some (Finite 40) \<and> tx_amount t2 = Some (Finite 40) \<and>
           tx_id t1 = 2 \<and> tx_id t2 = 3"
proof -
  have s: "sqlite_sequence example_db = 1"
    by (simp add: example_db_rows)
  have e: "transfer None ''2024-01-03 12:00:00'' ''alice'' ''bob'' (Finite 40) example_db =
         (Inr True, snd (transfer None ''2024-01-03 12:00:00'' ''alice'' ''bob'' (Finite 40) example_db))"
    by (simp add: example_transfer)
  from transfer_rows_paired [OF e] obtain t1 t2 where
    "transactions (snd (transfer None ''2024-01-03 12:00:00'' ''alice'' ''bob'' (Finite 40) example_db))
       = transactions example_db @ [t1, t2]"
    "tx_type t1 = ''transfer_out''" "tx_type t2 = ''transfer_in''"
    "tx_username t1 = ''alice''" "tx_other_party t1 = ''bob''"
    "tx_username t2 = ''bob''" "tx_other_party t2 = ''alice''"
    "tx_amount t1 = bind_real (Finite 40)" "tx_amount t2 = bind_real (Finite 40)"
    "tx_id t1 = Suc (sqlite_sequence example_db)" "tx_id t2 = Suc (tx_id t1)"
    by blast
  then show ?thesis
    by (intro exI [of _ t1] exI [of _ t2]) (simp add: s bind_real_Finite)
qed

subsection \<open>C8: the history of a user\<close>

text \<open>
  Claim C8. In every database reached from the fresh tables, \<^verbatim>\<open>get_transactions\<close>
  returns exactly the rows whose username is the given one, in insertion order, which is
  the order of ascending id; for a username with no row (an unknown user too) it returns
  the empty list, not an error.
\<close>

theorem get_transactions_history:
  assumes "db = run ops create_tables"
  shows "get_transactions None u db =
           (Inr (map (\<lambda>t. (tx_type t, tx_amount t, tx_timestamp t, tx_other_party t))
                   (filter (\<lambda>t. tx_username t = u) (transactions db))), db) \<and>
         sorted_wrt (<) (map tx_id (filter (\<lambda>t. tx_username t = u) (transactions db))) \<and>
         (u \<notin> set (map tx_username (transactions db)) \<longrightarrow>
            get_transactions None u db = (Inr [], db))"
proof -
  have v: "valid_ids db"
    unfolding assms by (rule valid_ids_run [OF valid_ids_create_tables])
  have 1: "get_transactions None u db =
           (Inr (map (\<lambda>t. (tx_type t, tx_amount t, tx_timestamp t, tx_other_party t))
                   (filter (\<lambda>t. tx_username t = u) (transactions db))), db)"
    by (simp add: get_transactions_def order_by_id_valid [OF v])
  have "sorted_wrt (<) (map tx_id (transactions db))"
    using v by (simp add: valid_ids_def)
  then have 2: "sorted_wrt (<) (map tx_id (filter (\<lambda>t. tx_username t = u) (transactions db)))"
    by (simp add: sorted_wrt_map sorted_wrt_filter)
  have 3: "get_transactions None u db = (Inr [], db)"
    if "u \<notin> set (map tx_username (transactions db))"
  proof -
    from that have "filter (\<lambda>t. tx_username t = u) (transactions db) = []"
      by (auto simp add: filter_empty_conv)
    with 1 show ?thesis by simp
  qed
  from 1 2 3 show ?thesis by blast
qed

text \<open>
  Witness for C8: after alice's deposit and her transfer to bob, bob's history is the
  transfer_in row, alice's is the Deposit and the transfer_out row, ghost's is empty.
\<close>

theorem get_transactions_history_witness:
  "get_transactions None ''bob''
     (run [Transfer None ''2024-01-03 12:00:00'' ''alice'' ''bob'' (Finite 40)] example_db) =
     (Inr [(''transfer_in'', Some (Finite 40), ''2024-01-03 12:00:00'', ''alice'')],
      run [Transfer None ''2024-01-03 12:00:00'' ''alice'' ''bob'' (Finite 40)] example_db) \<and>
   get_transactions None ''alice''
     (run [Transfer None ''2024-01-03 12:00:00'' ''alice'' ''bob'' (Finite 40)] example_db) =
     (Inr [(''Deposit'', Some (Finite 100), ''2024-01-01 10:00:00'', ''''),
           (''transfer_out'', Some (Finite 40), ''2024-01-03 12:00:00'', ''bob'')],
      run [Transfer None ''2024-01-03 12:00:00'' ''alice'' ''bob'' (Finite 40)] example_db) \<and>
   get_transactions None ''ghost''
     (run [Transfer None ''2024-01-03 12:00:00'' ''alice'' ''bob'' (Finite 40)] example_db) =
     (Inr [], run [Transfer None ''2024-01-03 12:00:00'' ''alice'' ''bob'' (Finite 40)] example_db)"
proof -
  let ?ops = "[Signup None ''hash1'' ''alice'' ''pw1'', Signup None ''hash2'' ''bob'' ''pw2'',
          Deposit None ''2024-01-01 10:00:00'' ''alice'' (Finite 100),
          Transfer None ''2024-01-03 12:00:00'' ''alice'' ''bob'' (Finite 40)]"
  let ?db = "run [Transfer None ''2024-01-03 12:00:00'' ''alice'' ''bob'' (Finite 40)] example_db"
  have r: "?db = run ?ops create_tables"
    by (simp add: example_db_def)
  have e: "?db =
      \<lparr>users = [\<lparr>username = ''alice'', password = ''hash1'', balance = Some (Finite 60)\<rparr>,
               \<lparr>username = ''bob'', password = ''hash2'', balance = Some (Finite 40)\<rparr>],
      transactions = [\<lparr>tx_id = 1, tx_username = ''alice'', tx_type = ''Deposit'',
                       tx_amount = Some (Finite 100), tx_timestamp = ''2024-01-01 10:00:00'',
                       tx_other_party = ''''\<rparr>,
      \<lparr>tx_id = 2, tx_username = ''alice'', tx_type = ''transfer_out'',
                       tx_amount = Some (Finite 40), tx_timestamp = ''2024-01-03 12:00:00'',
                       tx_other_party = ''bob''\<rparr>,
      \<lparr>tx_id = 3, tx_username = ''bob'', tx_type = ''transfer_in'',
                       tx_amount = Some (Finite 40), tx_timestamp = ''2024-01-03 12:00:00'',
                       tx_other_party = ''alice''\<rparr>],
      sqlite_sequence = 3\<rparr>"
    by (simp add: example_transfer)
  show ?thesis
    using get_transactions_history [OF r, of "''bob''"]
      get_transactions_history [OF r, of "''alice''"]
      get_transactions_history [OF r, of "''ghost''"]
    unfolding e by simp
qed

subsection \<open>C9: two concurrent withdrawals\<close>

text \<open>
  Claim C9 says that of two concurrent withdrawals of 60 from an account holding 100
  exactly one succeeds and the balance ends at 40. The code breaks this: when both SELECTs
  come before the first UPDATE, both tests see 100, both calls return True, two Withdraw
  rows are written and the balance ends at -20. One call after the other behaves as the
  claim says: the second returns False and the balance is 40.
\<close>

theorem concurrent_withdrawals_both_succeed:
  "select_balance ''alice'' example_db = Some (Some (Finite 100)) \<and>
   concurrent_withdraws ''2024-01-02 09:00:00'' ''alice'' (Finite 60) ''alice'' (Finite 60)
       example_db =
     (Inr True, Inr True,
      \<lparr>users = [\<lparr>username = ''alice'', password = ''hash1'', balance = Some (Finite (- 20))\<rparr>,
               \<lparr>username = ''bob'', password = ''hash2'', balance = Some (Finite 0)\<rparr>],
       transactions = [\<lparr>tx_id = 1, tx_username = ''alice'', tx_type = ''Deposit'',
                        tx_amount = Some (Finite 100), tx_timestamp = ''2024-01-01 10:00:00'',
                        tx_other_party = ''''\<rparr>,
                       \<lparr>tx_id = 2, tx_username = ''alice'', tx_type = ''Withdraw'',
                        tx_amount = Some (Finite 60), tx_timestamp = ''2024-01-02 09:00:00'',
                        tx_other_party = ''''\<rparr>,
                       \<lparr>tx_id = 3, tx_username = ''alice'', tx_type = ''Withdraw'',
                        tx_amount = Some (Finite 60), tx_timestamp = ''2024-01-02 09:00:00'',
                        tx_other_party = ''''\<rparr>],
       sqlite_sequence = 3\<rparr>) \<and>
   fst (withdraw None ''2024-01-02 09:00:00'' ''alice'' (Finite 60)
          (snd (withdraw None ''2024-01-02 09:00:00'' ''alice'' (Finite 60) example_db)))
     = Inr False \<and>
   select_balance ''alice''
     (snd (withdraw None ''2024-01-02 09:00:00'' ''alice'' (Finite 60)
          (snd (withdraw None ''2024-01-02 09:00:00'' ''alice'' (Finite 60) example_db))))
     = Some (Some (Finite 40))"
  by (simp add: concurrent_withdraws_def Let_def example_db_rows all_defs
      round_double_examples)

subsection \<open>C10: the timestamp of the two rows\<close>

text \<open>
  Claim C10. The two rows a successful transfer appends carry the same timestamp, the one
  computed before both inserts. The rows are given whole: beside the crossed username and
  other_party and the amount, that timestamp is all they share, and no column pairs them.
\<close>

theorem transfer_shared_timestamp:
  assumes "transfer fault now sender receiver amount db = (Inr True, db')"
  shows "drop (length (transactions db)) (transactions db') =
           [\<lparr>tx_id = Suc (sqlite_sequence db), tx_username = sender,
             tx_type = ''transfer_out'', tx_amount = bind_real amount, tx_timestamp = now,
             tx_other_party = receiver\<rparr>,
            \<lparr>tx_id = Suc (Suc (sqlite_sequence db)), tx_username = receiver,
             tx_type = ''transfer_in'', tx_amount = bind_real amount, tx_timestamp = now,
             tx_other_party = sender\<rparr>] \<and>
         map tx_timestamp (drop (length (transactions db)) (transactions db')) = [now, now]"
proof -
  from transfer_True [OF assms]
  have "db' = insert_transaction receiver ''transfer_in'' amount now sender
                 (insert_transaction sender ''transfer_out'' amount now receiver
                    (update_add amount receiver (update_sub amount sender db)))"
    by blast
  then show ?thesis
    by (simp add: transactions_insert_transaction sqlite_sequence_insert_transaction
        transactions_update_add transactions_update_sub
        sqlite_sequence_update_add sqlite_sequence_update_sub)
qed

text \<open>Witness for C10: both rows of alice's transfer carry the time of the call.\<close>

theorem transfer_shared_timestamp_witness:
  "map tx_timestamp (drop (length (transactions example_db))
     (transactions (snd (transfer None ''2024-01-03 12:00:00'' ''alice'' ''bob'' (Finite 40) example_db))))
   = [''2024-01-03 12:00:00'', ''2024-01-03 12:00:00'']"
proof -
  have e: "transfer None ''2024-01-03 12:00:00'' ''alice'' ''bob'' (Finite 40) example_db =
         (Inr True, snd (transfer None ''2024-01-03 12:00:00'' ''alice'' ''bob'' (Finite 40) example_db))"
    by (simp add: example_transfer)
  from transfer_shared_timestamp [OF e] show ?thesis
    by simp
qed

end
